theory Spec2Isabelle
  imports Complex_Main
begin

section \<open>The WeChat push client of \<^verbatim>\<open>util/WeChatPush.py\<close>\<close>

text \<open>
  The class \<^verbatim>\<open>WeChatPush\<close> keeps an access token in a pickle file and in memory,
  fetches a new one from the \<^verbatim>\<open>gettoken\<close> endpoint, and posts one \<^verbatim>\<open>mpnews\<close> article
  to the \<^verbatim>\<open>message/send\<close> endpoint. The file system, the clock, the remote server, the
  requests put on the wire and the lines printed are an explicit \<open>world\<close>; a Python
  exception is the \<open>Inl\<close> branch of a sum.
\<close>

subsection \<open>Python strings\<close>

text \<open>
  A Python \<^verbatim>\<open>str\<close> is a sequence of Unicode code points. \<open>ascii\<close> reads an ASCII
  literal as such a sequence.
\<close>

type_synonym pystr = "nat list"

definition ascii :: "string \<Rightarrow> pystr" where
  "ascii s = map of_char s"

text \<open>
  \<^verbatim>\<open>s.replace(old, new)\<close>: every occurrence of \<open>old\<close>, found from the left without
  overlap, becomes \<open>new\<close>. For an empty \<open>old\<close> Python puts \<open>new\<close> before every
  character and at the end.
\<close>

fun replace_from :: "'a list \<Rightarrow> 'a list \<Rightarrow> 'a list \<Rightarrow> 'a list" where
  "replace_from old new [] = []"
| "replace_from old new (c # cs) =
     (if old \<noteq> [] \<and> take (length old) (c # cs) = old
      then new @ replace_from old new (drop (length old) (c # cs))
      else c # replace_from old new cs)"

definition replace :: "'a list \<Rightarrow> 'a list \<Rightarrow> 'a list \<Rightarrow> 'a list" where
  "replace old new s =
     (if old = [] then new @ concat (map (\<lambda>c. c # new) s) else replace_from old new s)"

text \<open>
  \<^verbatim>\<open>s.strip()\<close> removes the leading and trailing characters for which
  \<^verbatim>\<open>str.isspace\<close> holds; \<open>isspace\<close> lists those code points.
\<close>

definition isspace :: "nat \<Rightarrow> bool" where
  "isspace c =
     ((9 \<le> c \<and> c \<le> 13) \<or> (28 \<le> c \<and> c \<le> 32) \<or> c = 133 \<or> c = 160 \<or> c = 5760
      \<or> (8192 \<le> c \<and> c \<le> 8202) \<or> c = 8232 \<or> c = 8233 \<or> c = 8239 \<or> c = 8287
      \<or> c = 12288)"

definition strip :: "pystr \<Rightarrow> pystr" where
  "strip s = rev (dropWhile isspace (rev (dropWhile isspace s)))"

text \<open>
  \<^verbatim>\<open>s.split('#')\<close> with a one-character separator: the fields between the
  separators, always at least one.
\<close>

fun split :: "'a \<Rightarrow> 'a list \<Rightarrow> 'a list list" where
  "split sep [] = [[]]"
| "split sep (c # cs) =
     (if c = sep then [] # split sep cs
      else (case split sep cs of
              [] \<Rightarrow> [[c]]
            | f # fs \<Rightarrow> (c # f) # fs))"

text \<open>The chain of \<^verbatim>\<open>replace\<close> calls that \<^verbatim>\<open>send_message\<close> binds to \<^verbatim>\<open>clean_digest\<close>.\<close>

definition clean_digest :: "pystr \<Rightarrow> pystr" where
  "clean_digest content =
     replace (ascii ''</span>'') []
       (replace (ascii ''<span>'') [10]
         (replace (ascii ''</li>'') []
           (replace (ascii ''<li>'') []
             (replace (ascii ''</ul>'') []
               (replace (ascii ''<ul>'') []
                 (replace (ascii ''</div>'') []
                   (replace (ascii ''<div>'') [] content)))))))"

subsection \<open>Python values\<close>

text \<open>
  The objects that a pickle file or a JSON body can hold, as far as the client looks at
  them. A \<^verbatim>\<open>float\<close> is read as the real number it denotes; what a float addition and the
  conversion of an \<^verbatim>\<open>int\<close> to a \<^verbatim>\<open>float\<close> round to is given by the world below. A \<^verbatim>\<open>dict\<close>
  is its list of items.
\<close>

datatype py =
    PNone
  | PBool bool
  | PInt int
  | PFloat real
  | PStr pystr
  | PList "py list"
  | PDict "(py \<times> py) list"

text \<open>\<^verbatim>\<open>bool(v)\<close>, the test of an \<^verbatim>\<open>if v:\<close>.\<close>

fun truthy :: "py \<Rightarrow> bool" where
  "truthy PNone = False"
| "truthy (PBool b) = b"
| "truthy (PInt i) = (i \<noteq> 0)"
| "truthy (PFloat r) = (r \<noteq> 0)"
| "truthy (PStr s) = (s \<noteq> [])"
| "truthy (PList l) = (l \<noteq> [])"
| "truthy (PDict d) = (d \<noteq> [])"

text \<open>
  The number a value stands for in \<^verbatim>\<open><\<close> and \<^verbatim>\<open>==\<close> against a number, which Python
  compares exactly; for a value that is no number \<^verbatim>\<open><\<close> raises \<^verbatim>\<open>TypeError\<close>.
\<close>

fun num_of :: "py \<Rightarrow> real option" where
  "num_of (PBool b) = Some (if b then 1 else 0)"
| "num_of (PInt i) = Some (of_int i)"
| "num_of (PFloat r) = Some r"
| "num_of v = None"

text \<open>\<^verbatim>\<open>v == 0\<close>.\<close>

definition eq_zero :: "py \<Rightarrow> bool" where
  "eq_zero v = (case num_of v of None \<Rightarrow> False | Some r \<Rightarrow> r = 0)"

text \<open>\<^verbatim>\<open>d.get(k)\<close> for a string key: the value, or \<^verbatim>\<open>None\<close> when the key is absent.\<close>

definition dict_get :: "(py \<times> py) list \<Rightarrow> string \<Rightarrow> py" where
  "dict_get d k = (case map_of d (PStr (ascii k)) of None \<Rightarrow> PNone | Some v \<Rightarrow> v)"

subsection \<open>Exceptions, files, the network\<close>

text \<open>
  \<open>TokenFailed m\<close> is the \<^verbatim>\<open>Exception\<close> raised with the server's \<^verbatim>\<open>errmsg\<close> \<open>m\<close> in its
  text, \<open>RequestFailed c\<close> the one raised with the status code \<open>c\<close>.
\<close>

datatype exn =
    IndexError
  | PermissionError
  | UnpicklingError
  | AttributeError
  | TypeError
  | OverflowError
  | OSError
  | KeyError
  | ValueError
  | ConnectionError
  | JSONDecodeError
  | TokenFailed py
  | RequestFailed int

text \<open>
  The bytes of a file, by what \<^verbatim>\<open>pickle.load\<close> does on them. \<open>Empty\<close> is the file of no
  bytes, on which it raises \<^verbatim>\<open>EOFError\<close>. \<open>RanOutOfInput\<close> are the other bytes on which it
  raises \<^verbatim>\<open>EOFError\<close>; few cut-off files are of this kind. \<open>Invalid\<close> are the bytes it
  rejects with another exception, as it does on most cut-off files. \<open>Object v\<close> are the
  bytes of a pickle of \<open>v\<close>.
\<close>

datatype pickled = Empty | RanOutOfInput | Invalid | Object py

text \<open>
  A path of the file system: no file (\<^verbatim>\<open>FileNotFoundError\<close> on reading), a path that
  cannot be opened at all (\<^verbatim>\<open>PermissionError\<close>), or a file with its bytes.
\<close>

datatype file_state = Missing | Denied | Stored pickled

text \<open>
  The two requests of the client. \<open>GetToken corpid corpsecret\<close> is the GET of
  \<^verbatim>\<open>https://qyapi.weixin.qq.com/cgi-bin/gettoken?corpid=..&corpsecret=..\<close>;
  \<open>SendMessage token data headers\<close> is the POST of
  \<^verbatim>\<open>https://qyapi.weixin.qq.com/cgi-bin/message/send?access_token=..\<close> with the JSON
  body \<open>data\<close>.
\<close>

datatype http_request =
    GetToken pystr pystr
  | SendMessage py py "(string \<times> string) list"

datatype http_body = NotJson | Json py

datatype http_reply = NoReply | Reply int http_body

text \<open>The two lines \<^verbatim>\<open>send_message\<close> prints: success, and failure with the status code.\<close>

datatype out_line = MessageSent | MessageFailed int

text \<open>
  The world of a run. \<open>can_write p\<close> tells whether \<^verbatim>\<open>open(p, 'wb')\<close> succeeds: it fails
  with an \<^verbatim>\<open>OSError\<close> in a missing directory and on a read-only file, whatever reading
  the path gives. \<open>float_of_int\<close> is the conversion of an \<^verbatim>\<open>int\<close> to the nearest
  \<^verbatim>\<open>float\<close>, \<open>None\<close> where the \<^verbatim>\<open>int\<close> is beyond the range of a \<^verbatim>\<open>float\<close>
  (\<^verbatim>\<open>OverflowError\<close>); \<open>float_add\<close> is the rounded sum of two floats.
\<close>

record world =
  now :: real
  fs :: "pystr \<Rightarrow> file_state"
  can_write :: "pystr \<Rightarrow> bool"
  float_of_int :: "int \<Rightarrow> real option"
  float_add :: "real \<Rightarrow> real \<Rightarrow> real"
  server :: "http_request \<Rightarrow> http_reply"
  wire :: "http_request list"
  stdout :: "out_line list"

record wechat_push =
  token_list :: "pystr list"
  corpid :: pystr
  corpsecret :: pystr
  agentid :: pystr
  token_file :: pystr
  access_token :: py

subsection \<open>The token cache\<close>

text \<open>
  \<^verbatim>\<open>_load_access_token\<close>: only \<^verbatim>\<open>FileNotFoundError\<close> and \<^verbatim>\<open>EOFError\<close> are caught. The \<^verbatim>\<open>and\<close>
  of the test does not compare the expiry when the token counts as false.
\<close>

definition load_access_token :: "wechat_push \<Rightarrow> world \<Rightarrow> exn + py" where
  "load_access_token self w =
     (case fs w (token_file self) of
        Missing \<Rightarrow> Inr PNone
      | Denied \<Rightarrow> Inl PermissionError
      | Stored Empty \<Rightarrow> Inr PNone
      | Stored RanOutOfInput \<Rightarrow> Inr PNone
      | Stored Invalid \<Rightarrow> Inl UnpicklingError
      | Stored (Object data) \<Rightarrow>
          (case data of
             PDict d \<Rightarrow>
               (let tok = dict_get d ''access_token'';
                    expire_time = dict_get d ''expire_time''
                in if truthy tok
                   then (case num_of expire_time of
                           None \<Rightarrow> Inl TypeError
                         | Some e \<Rightarrow> if now w < e then Inr tok else Inr PNone)
                   else Inr PNone)
           | _ \<Rightarrow> Inl AttributeError))"

text \<open>
  The right operand of \<^verbatim>\<open>time.time() + v\<close> as a float: an \<^verbatim>\<open>int\<close> is converted, which
  raises \<^verbatim>\<open>OverflowError\<close> beyond the range of a float; a value that is no number raises
  \<^verbatim>\<open>TypeError\<close>.
\<close>

definition as_float :: "world \<Rightarrow> py \<Rightarrow> exn + real" where
  "as_float w v =
     (case v of
        PBool b \<Rightarrow> Inr (if b then 1 else 0)
      | PInt i \<Rightarrow> (case float_of_int w i of None \<Rightarrow> Inl OverflowError | Some f \<Rightarrow> Inr f)
      | PFloat f \<Rightarrow> Inr f
      | _ \<Rightarrow> Inl TypeError)"

text \<open>
  \<^verbatim>\<open>_save_access_token\<close>: the expiry is computed first, as the float sum of the time and
  \<^verbatim>\<open>expires_in\<close>; then the file is opened for writing and the dictionary dumped; then the
  token in memory is set. Nothing is written and the token in memory stays when the sum
  or the opening raises.
\<close>

definition save_access_token ::
  "wechat_push \<Rightarrow> py \<Rightarrow> py \<Rightarrow> world \<Rightarrow> (exn + unit) \<times> wechat_push \<times> world" where
  "save_access_token self tok expires_in w =
     (case as_float w expires_in of
        Inl e \<Rightarrow> (Inl e, self, w)
      | Inr ttl \<Rightarrow>
          (let expire_time = float_add w (now w) ttl;
               data = PDict [(PStr (ascii ''access_token''), tok),
                             (PStr (ascii ''expire_time''), PFloat expire_time)]
           in case fs w (token_file self) of
                Denied \<Rightarrow> (Inl PermissionError, self, w)
              | _ \<Rightarrow>
                  if can_write w (token_file self)
                  then (Inr (), self\<lparr>access_token := tok\<rparr>,
                        w\<lparr>fs := (fs w)(token_file self := Stored (Object data))\<rparr>)
                  else (Inl OSError, self, w)))"

text \<open>
  \<^verbatim>\<open>__init__\<close>: \<^verbatim>\<open>token_list[1]\<close> and \<^verbatim>\<open>token_list[2]\<close> raise \<^verbatim>\<open>IndexError\<close> on a list that
  is too short; 35 is the code point of \<^verbatim>\<open>#\<close>.
\<close>

definition WeChatPush_init :: "pystr \<Rightarrow> pystr \<Rightarrow> world \<Rightarrow> exn + wechat_push" where
  "WeChatPush_init token_str file w =
     (case split 35 token_str of
        c # s # a # rest \<Rightarrow>
          (let self = \<lparr>token_list = c # s # a # rest, corpid = c, corpsecret = s,
                       agentid = a, token_file = file, access_token = PNone\<rparr>
           in case load_access_token self w of
                Inl e \<Rightarrow> Inl e
              | Inr tok \<Rightarrow> Inr (self\<lparr>access_token := tok\<rparr>))
      | _ \<Rightarrow> Inl IndexError)"

subsection \<open>The two calls\<close>

text \<open>
  \<^verbatim>\<open>_get_access_token\<close>: a token in memory that counts as true is returned at once;
  otherwise the token endpoint is asked, and its request is recorded on the wire.
\<close>

definition get_access_token ::
  "wechat_push \<Rightarrow> world \<Rightarrow> (exn + py) \<times> wechat_push \<times> world" where
  "get_access_token self w =
     (if truthy (access_token self) then (Inr (access_token self), self, w)
      else
        (let req = GetToken (corpid self) (corpsecret self);
             w1 = w\<lparr>wire := wire w @ [req]\<rparr>
         in case server w req of
              NoReply \<Rightarrow> (Inl ConnectionError, self, w1)
            | Reply status body \<Rightarrow>
                if status = 200 then
                  (case body of
                     NotJson \<Rightarrow> (Inl JSONDecodeError, self, w1)
                   | Json (PDict d) \<Rightarrow>
                       if eq_zero (dict_get d ''errcode'') then
                         (case map_of d (PStr (ascii ''access_token'')) of
                            None \<Rightarrow> (Inl KeyError, self, w1)
                          | Some tok \<Rightarrow>
                              (case map_of d (PStr (ascii ''expires_in'')) of
                                 None \<Rightarrow> (Inl KeyError, self, w1)
                               | Some expires_in \<Rightarrow>
                                   (case save_access_token self tok expires_in w1 of
                                      (Inl e, self', w2) \<Rightarrow> (Inl e, self', w2)
                                    | (Inr u, self', w2) \<Rightarrow> (Inr tok, self', w2))))
                       else
                         (case map_of d (PStr (ascii ''errmsg'')) of
                            None \<Rightarrow> (Inl KeyError, self, w1)
                          | Some m \<Rightarrow> (Inl (TokenFailed m), self, w1))
                   | Json _ \<Rightarrow> (Inl AttributeError, self, w1))
                else (Inl (RequestFailed status), self, w1)))"

definition headers :: "(string \<times> string) list" where
  "headers =
     [(''accept'', ''application/json, text/plain, */*''),
      (''accept-encoding'', ''gzip, deflate, br''),
      (''accept-language'', ''zh-CN,zh;q=0.9''),
      (''content-type'', ''application/json;charset=UTF-8''),
      (''user-agent'', ''Mozilla/5.0 (iPhone; CPU iPhone OS 18_3 like Mac OS X) AppleWebKit/605.1.15 (KHTML, like Gecko) Mobile/15E148'')]"

text \<open>
  The dictionary \<^verbatim>\<open>data\<close> of \<^verbatim>\<open>send_message\<close>, given the value \<open>n\<close> of
  \<^verbatim>\<open>int(self.agentid)\<close>. The author is the three code points of the source's literal.
\<close>

definition message_data :: "int \<Rightarrow> pystr \<Rightarrow> pystr \<Rightarrow> py" where
  "message_data n title content =
     PDict
       [(PStr (ascii ''touser''), PStr (ascii ''@all'')),
        (PStr (ascii ''msgtype''), PStr (ascii ''mpnews'')),
        (PStr (ascii ''agentid''), PInt n),
        (PStr (ascii ''mpnews''),
         PDict
           [(PStr (ascii ''articles''),
             PList
               [PDict
                  [(PStr (ascii ''title''), PStr (replace [10] [] title)),
                   (PStr (ascii ''thumb_media_id''),
                    PStr (ascii ''2olmh7kAnR5KVR0BuHzAiOuWEFkBF8ITqi6AQxTUR3bQiFpnP2UukUn9xNtk-LvIm'')),
                   (PStr (ascii ''author''), PStr [38160, 22823, 31070]),
                   (PStr (ascii ''content_source_url''),
                    PStr (ascii ''https://www.fglt.net/index.php'')),
                   (PStr (ascii ''content''), PStr content),
                   (PStr (ascii ''digest''), PStr (strip (clean_digest content)))]])])]"

text \<open>
  \<^verbatim>\<open>int\<close> is Python's conversion of a string to an integer, \<open>None\<close> where it raises
  \<^verbatim>\<open>ValueError\<close>; it is a parameter of the model.
\<close>

definition send_message ::
  "(pystr \<Rightarrow> int option) \<Rightarrow> wechat_push \<Rightarrow> pystr \<Rightarrow> pystr \<Rightarrow> world
     \<Rightarrow> (exn + py) \<times> wechat_push \<times> world" where
  "send_message int_of self title content w =
     (case get_access_token self w of
        (Inl e, self1, w1) \<Rightarrow> (Inl e, self1, w1)
      | (Inr tok, self1, w1) \<Rightarrow>
          (case int_of (agentid self1) of
             None \<Rightarrow> (Inl ValueError, self1, w1)
           | Some n \<Rightarrow>
               (let req = SendMessage tok (message_data n title content) headers;
                    w2 = w1\<lparr>wire := wire w1 @ [req]\<rparr>
                in case server w2 req of
                     NoReply \<Rightarrow> (Inl ConnectionError, self1, w2)
                   | Reply status body \<Rightarrow>
                       if status = 200 then
                         (case body of
                            NotJson \<Rightarrow>
                              (Inl JSONDecodeError, self1, w2\<lparr>stdout := stdout w2 @ [MessageSent]\<rparr>)
                          | Json j \<Rightarrow>
                              (Inr j, self1, w2\<lparr>stdout := stdout w2 @ [MessageSent]\<rparr>))
                       else
                         (Inr PNone, self1,
                          w2\<lparr>stdout := stdout w2 @ [MessageFailed status]\<rparr>))))"

subsection \<open>Reading the posted article\<close>

text \<open>
  \<^verbatim>\<open>data['mpnews']['articles'][0].get(k)\<close>: a field of the first article of a posted
  body, \<^verbatim>\<open>None\<close> where the body has no such article.
\<close>

definition article_field :: "py \<Rightarrow> string \<Rightarrow> py" where
  "article_field data k =
     (case data of
        PDict d \<Rightarrow>
          (case dict_get d ''mpnews'' of
             PDict m \<Rightarrow>
               (case dict_get m ''articles'' of
                  PList (PDict a # rest) \<Rightarrow> dict_get a k
                | _ \<Rightarrow> PNone)
           | _ \<Rightarrow> PNone)
      | _ \<Rightarrow> PNone)"

text \<open>The same field of the article that a request carries; \<^verbatim>\<open>None\<close> for the token request.\<close>

fun posted_field :: "http_request \<Rightarrow> string \<Rightarrow> py" where
  "posted_field (GetToken c s) k = PNone"
| "posted_field (SendMessage t d h) k = article_field d k"

subsection \<open>Concrete clients and worlds\<close>

text \<open>
  \<open>decimal\<close> reads a non-empty string of ASCII digits, as \<^verbatim>\<open>int\<close> does on such a
  string; it stands for \<^verbatim>\<open>int\<close> in the concrete runs.
\<close>

definition decimal :: "pystr \<Rightarrow> int option" where
  "decimal s =
     (if s \<noteq> [] \<and> list_all (\<lambda>c. 48 \<le> c \<and> c \<le> 57) s
      then Some (foldl (\<lambda>n c. 10 * n + int (c - 48)) 0 s)
      else None)"

definition cache_path :: pystr where
  "cache_path = ascii ''access_token.data''"

text \<open>A server that grants the token \<^verbatim>\<open>TOKEN\<close> for 7200 seconds and accepts a message.\<close>

fun good_server :: "http_request \<Rightarrow> http_reply" where
  "good_server (GetToken c s) =
     Reply 200 (Json (PDict [(PStr (ascii ''errcode''), PInt 0),
                             (PStr (ascii ''errmsg''), PStr (ascii ''ok'')),
                             (PStr (ascii ''access_token''), PStr (ascii ''TOKEN'')),
                             (PStr (ascii ''expires_in''), PInt 7200)]))"
| "good_server (SendMessage t d h) =
     Reply 200 (Json (PDict [(PStr (ascii ''errcode''), PInt 0),
                             (PStr (ascii ''errmsg''), PStr (ascii ''ok''))]))"

text \<open>A server that rejects the credentials with an application error code.\<close>

fun rejecting_server :: "http_request \<Rightarrow> http_reply" where
  "rejecting_server (GetToken c s) =
     Reply 200 (Json (PDict [(PStr (ascii ''errcode''), PInt 40013),
                             (PStr (ascii ''errmsg''), PStr (ascii ''invalid corpid''))]))"
| "rejecting_server (SendMessage t d h) =
     Reply 200 (Json (PDict [(PStr (ascii ''errcode''), PInt 0),
                             (PStr (ascii ''errmsg''), PStr (ascii ''ok''))]))"

text \<open>A server whose token endpoint and message endpoint both answer 500.\<close>

fun broken_server :: "http_request \<Rightarrow> http_reply" where
  "broken_server r = Reply 500 NotJson"

text \<open>
  The arithmetic of the concrete runs: \<open>double_of_int\<close> is exact, and raises from
  \<open>2 ^ 1024\<close> on; \<open>exact_add\<close> is the sum. They give what Python gives where the integer and
  the sum are floats, as 7200 and 50 + 7200 are, and where the integer is beyond \<open>2 ^ 1024\<close>.
\<close>

definition double_of_int :: "int \<Rightarrow> real option" where
  "double_of_int i = (if \<bar>i\<bar> < 2 ^ 1024 then Some (of_int i) else None)"

definition exact_add :: "real \<Rightarrow> real \<Rightarrow> real" where
  "exact_add x y = x + y"

definition any_path :: "pystr \<Rightarrow> bool" where
  "any_path p = True"

definition no_files :: "pystr \<Rightarrow> file_state" where
  "no_files p = Missing"

definition empty_files :: "pystr \<Rightarrow> file_state" where
  "empty_files p = Stored Empty"

definition corrupt_files :: "pystr \<Rightarrow> file_state" where
  "corrupt_files p = Stored Invalid"

text \<open>A cache file that holds the token \<^verbatim>\<open>T\<close>, good until time 100.\<close>

definition cached_files :: "pystr \<Rightarrow> file_state" where
  "cached_files p =
     Stored (Object (PDict [(PStr (ascii ''access_token''), PStr (ascii ''T'')),
                            (PStr (ascii ''expire_time''), PFloat 100)]))"

definition fresh_world :: world where
  "fresh_world = \<lparr>now = 50, fs = no_files, can_write = any_path, float_of_int = double_of_int,
      float_add = exact_add, server = good_server, wire = [], stdout = []\<rparr>"

definition corrupt_world :: world where
  "corrupt_world = \<lparr>now = 50, fs = corrupt_files, can_write = any_path, float_of_int = double_of_int,
      float_add = exact_add, server = good_server, wire = [], stdout = []\<rparr>"

definition cached_world :: world where
  "cached_world = \<lparr>now = 50, fs = cached_files, can_write = any_path, float_of_int = double_of_int,
      float_add = exact_add, server = good_server, wire = [], stdout = []\<rparr>"

definition rejected_world :: world where
  "rejected_world =
     \<lparr>now = 50, fs = no_files, can_write = any_path, float_of_int = double_of_int,
      float_add = exact_add, server = rejecting_server, wire = [], stdout = []\<rparr>"

definition broken_world :: world where
  "broken_world = \<lparr>now = 50, fs = no_files, can_write = any_path, float_of_int = double_of_int,
      float_add = exact_add, server = broken_server, wire = [], stdout = []\<rparr>"

text \<open>The client of \<^verbatim>\<open>WeChatPush("corp#secret#1000002")\<close>, without and with a token.\<close>

definition bare_client :: wechat_push where
  "bare_client =
     \<lparr>token_list = [ascii ''corp'', ascii ''secret'', ascii ''1000002''],
      corpid = ascii ''corp'', corpsecret = ascii ''secret'', agentid = ascii ''1000002'',
      token_file = cache_path, access_token = PNone\<rparr>"

definition cached_client :: wechat_push where
  "cached_client = bare_client\<lparr>access_token := PStr (ascii ''T'')\<rparr>"

text \<open>
  A client whose third field is no integer, \<^verbatim>\<open>WeChatPush("corp#secret#abc")\<close>, with the
  token \<^verbatim>\<open>T\<close> in memory.
\<close>

definition worded_client :: wechat_push where
  "worded_client =
     \<lparr>token_list = [ascii ''corp'', ascii ''secret'', ascii ''abc''],
      corpid = ascii ''corp'', corpsecret = ascii ''secret'', agentid = ascii ''abc'',
      token_file = cache_path, access_token = PStr (ascii ''T'')\<rparr>"

section \<open>Properties\<close>

subsection \<open>Shared facts\<close>

lemma replace_single: "replace [c] [] s = filter (\<lambda>x. x \<noteq> c) s"
  by (induction s) (auto simp: replace_def)

lemma article_title:
  "article_field (message_data n title content) ''title'' = PStr (replace [10] [] title)"
  by (simp add: article_field_def message_data_def dict_get_def ascii_def)

lemma article_digest:
  "article_field (message_data n title content) ''digest'' = PStr (strip (clean_digest content))"
  by (simp add: article_field_def message_data_def dict_get_def ascii_def)

lemma clean_digest_div: "clean_digest (ascii ''<div>X</div>'') = ascii ''X''"
  by code_simp

lemma clean_digest_spans:
  "clean_digest (ascii ''<span>A</span><span>B</span>'') = 10 # ascii ''A'' @ 10 # ascii ''B''"
  by code_simp

lemma digest_div: "strip (clean_digest (ascii ''<div>X</div>'')) = ascii ''X''"
  by code_simp

lemma digest_spans:
  "strip (clean_digest (ascii ''<span>A</span><span>B</span>'')) = ascii ''A'' @ 10 # ascii ''B''"
  by code_simp

lemma get_access_token_keeps:
  "get_access_token self w = (r, self1, w1) \<Longrightarrow>
     server w1 = server w \<and> now w1 = now w \<and> stdout w1 = stdout w
     \<and> agentid self1 = agentid self \<and> corpid self1 = corpid self
     \<and> corpsecret self1 = corpsecret self \<and> token_file self1 = token_file self"
  by (auto simp: get_access_token_def save_access_token_def Let_def
      split: if_splits http_reply.splits http_body.splits py.splits option.splits
        file_state.splits prod.splits sum.splits)

lemma get_access_token_fetch_fails:
  assumes "\<not> truthy (access_token self)"
    and "server w (GetToken (corpid self) (corpsecret self)) = Reply status body"
    and "status \<noteq> 200 \<or> (body = Json (PDict d) \<and> \<not> eq_zero (dict_get d ''errcode''))"
  shows "get_access_token self w =
           (Inl (if status \<noteq> 200 then RequestFailed status
                 else case map_of d (PStr (ascii ''errmsg'')) of
                        None \<Rightarrow> KeyError
                      | Some m \<Rightarrow> TokenFailed m),
            self, w\<lparr>wire := wire w @ [GetToken (corpid self) (corpsecret self)]\<rparr>)"
  using assms by (auto simp: get_access_token_def Let_def split: option.splits)

lemma send_message_after_token:
  assumes "get_access_token self w = (Inr tok, self1, w1)"
    and "int_of (agentid self) = Some n"
    and "server w (SendMessage tok (message_data n title content) headers) = Reply status body"
  shows "send_message int_of self title content w =
           (if status = 200
            then (case body of NotJson \<Rightarrow> Inl JSONDecodeError | Json j \<Rightarrow> Inr j,
                  self1,
                  w1\<lparr>wire := wire w1 @ [SendMessage tok (message_data n title content) headers],
                     stdout := stdout w1 @ [MessageSent]\<rparr>)
            else (Inr PNone, self1,
                  w1\<lparr>wire := wire w1 @ [SendMessage tok (message_data n title content) headers],
                     stdout := stdout w1 @ [MessageFailed status]\<rparr>))"
  using assms get_access_token_keeps[OF assms(1)]
  by (simp add: send_message_def Let_def split: http_body.splits)

lemma send_message_posts:
  assumes "get_access_token self w = (Inr tok, self1, w1)"
    and "int_of (agentid self) = Some n"
  shows "wire (snd (snd (send_message int_of self title content w)))
         = wire w1 @ [SendMessage tok (message_data n title content) headers]"
  using assms get_access_token_keeps[OF assms(1)]
  by (simp add: send_message_def Let_def split: http_reply.splits http_body.splits)

lemma get_cached:
  "get_access_token cached_client w = (Inr (PStr (ascii ''T'')), cached_client, w)"
  by (simp add: get_access_token_def cached_client_def ascii_def)

lemma decimal_agent: "decimal (agentid cached_client) = Some 1000002"
  by (simp add: cached_client_def bare_client_def decimal_def ascii_def)

subsection \<open>The digest of the fixed inputs\<close>

text \<open>
  C1, as the claim states it, fails: for the content \<^verbatim>\<open><span>A</span><span>B</span>\<close> the
  digest of the article that \<^verbatim>\<open>send_message\<close> posts is not \<^verbatim>\<open>\nA\nB\<close>.
\<close>

theorem digest_spans_counterexample:
  "posted_field
     (last (wire (snd (snd (send_message decimal cached_client (ascii ''t'')
                              (ascii ''<span>A</span><span>B</span>'') cached_world)))))
     ''digest''
   \<noteq> PStr (10 # ascii ''A'' @ 10 # ascii ''B'')"
  using send_message_posts[of cached_client cached_world "PStr (ascii ''T'')" cached_client
          cached_world decimal 1000002 "ascii ''t''" "ascii ''<span>A</span><span>B</span>''"]
  by (simp add: get_cached decimal_agent article_digest digest_spans)

text \<open>
  C1, amended: replacing the tags gives \<^verbatim>\<open>X\<close> for \<^verbatim>\<open><div>X</div>\<close> and \<^verbatim>\<open>\nA\nB\<close> for
  \<^verbatim>\<open><span>A</span><span>B</span>\<close>; the digest of the article is that string with the
  white space at both ends stripped, \<^verbatim>\<open>X\<close> and \<^verbatim>\<open>A\nB\<close>.
\<close>

theorem digest_fixed_inputs:
  "clean_digest (ascii ''<div>X</div>'') = ascii ''X''
   \<and> clean_digest (ascii ''<span>A</span><span>B</span>'') = 10 # ascii ''A'' @ 10 # ascii ''B''
   \<and> article_field (message_data n title (ascii ''<div>X</div>'')) ''digest'' = PStr (ascii ''X'')
   \<and> article_field (message_data n title (ascii ''<span>A</span><span>B</span>'')) ''digest''
       = PStr (ascii ''A'' @ 10 # ascii ''B'')"
proof -
  have "article_field (message_data n title (ascii ''<div>X</div>'')) ''digest''
          = PStr (ascii ''X'')"
    by (simp only: article_digest digest_div)
  moreover have "article_field (message_data n title (ascii ''<span>A</span><span>B</span>''))
                   ''digest'' = PStr (ascii ''A'' @ 10 # ascii ''B'')"
    by (simp only: article_digest digest_spans)
  ultimately show ?thesis
    using clean_digest_div clean_digest_spans by simp
qed

subsection \<open>The token in memory is not checked against its expiry\<close>

text \<open>
  C2: the client built at time 50 from a cache file that holds the token \<^verbatim>\<open>T\<close>, good
  until time 100, still returns \<^verbatim>\<open>T\<close> from \<^verbatim>\<open>_get_access_token\<close> at time 200, with no
  request on the wire, although \<^verbatim>\<open>_load_access_token\<close> finds the token expired then.
\<close>

theorem get_access_token_returns_expired:
  "WeChatPush_init (ascii ''corp#secret#1000002'') cache_path cached_world = Inr cached_client
   \<and> get_access_token cached_client (cached_world\<lparr>now := 200\<rparr>)
       = (Inr (PStr (ascii ''T'')), cached_client, cached_world\<lparr>now := 200\<rparr>)
   \<and> load_access_token cached_client (cached_world\<lparr>now := 200\<rparr>) = Inr PNone"
  by (simp add: WeChatPush_init_def get_access_token_def load_access_token_def
        cached_world_def cached_files_def cached_client_def bare_client_def dict_get_def
        ascii_def)

subsection \<open>Loading a missing or damaged cache file\<close>

text \<open>
  C3, as the claim states it, fails: a cache file whose bytes \<^verbatim>\<open>pickle.load\<close> rejects, as
  it does most files that are cut off, makes \<^verbatim>\<open>_load_access_token\<close> raise.
\<close>

theorem load_corrupt_counterexample:
  "load_access_token bare_client corrupt_world = Inl UnpicklingError"
  by (simp add: load_access_token_def corrupt_world_def corrupt_files_def)

text \<open>
  C3, amended: a cache file that is missing or empty (no bytes) makes the load return no
  token, with no error; loading then behaves as "need new token".
\<close>

theorem load_missing_or_empty:
  assumes "fs w (token_file self) = Missing \<or> fs w (token_file self) = Stored Empty"
  shows "load_access_token self w = Inr PNone"
  using assms by (auto simp: load_access_token_def)

theorem load_missing_or_empty_witness:
  "fs fresh_world (token_file bare_client) = Missing
   \<and> load_access_token bare_client fresh_world = Inr PNone
   \<and> fs (fresh_world\<lparr>fs := empty_files\<rparr>) (token_file bare_client) = Stored Empty
   \<and> load_access_token bare_client (fresh_world\<lparr>fs := empty_files\<rparr>) = Inr PNone"
  using load_missing_or_empty[of fresh_world bare_client]
    load_missing_or_empty[of "fresh_world\<lparr>fs := empty_files\<rparr>" bare_client]
  by (simp add: fresh_world_def no_files_def empty_files_def)

subsection \<open>A failed authentication\<close>

text \<open>
  C4: when the token endpoint is asked (no token in memory) and answers with a status
  other than 200, or with a JSON object whose \<^verbatim>\<open>errcode\<close> is not 0, then
  \<^verbatim>\<open>_get_access_token\<close> raises, and \<^verbatim>\<open>send_message\<close> raises the same exception with only
  the token request on the wire: the message is never posted.
\<close>

theorem auth_failure_aborts_send:
  assumes "\<not> truthy (access_token self)"
    and "server w (GetToken (corpid self) (corpsecret self)) = Reply status body"
    and "status \<noteq> 200 \<or> (body = Json (PDict d) \<and> \<not> eq_zero (dict_get d ''errcode''))"
  shows "get_access_token self w =
           (Inl (if status \<noteq> 200 then RequestFailed status
                 else case map_of d (PStr (ascii ''errmsg'')) of
                        None \<Rightarrow> KeyError
                      | Some m \<Rightarrow> TokenFailed m),
            self, w\<lparr>wire := wire w @ [GetToken (corpid self) (corpsecret self)]\<rparr>)
         \<and> send_message int_of self title content w =
           (Inl (if status \<noteq> 200 then RequestFailed status
                 else case map_of d (PStr (ascii ''errmsg'')) of
                        None \<Rightarrow> KeyError
                      | Some m \<Rightarrow> TokenFailed m),
            self, w\<lparr>wire := wire w @ [GetToken (corpid self) (corpsecret self)]\<rparr>)"
  using get_access_token_fetch_fails[OF assms]
  by (simp add: send_message_def)

theorem auth_failure_aborts_send_witness:
  "\<not> truthy (access_token bare_client)
   \<and> server rejected_world (GetToken (corpid bare_client) (corpsecret bare_client)) =
       Reply 200 (Json (PDict [(PStr (ascii ''errcode''), PInt 40013),
                               (PStr (ascii ''errmsg''), PStr (ascii ''invalid corpid''))]))
   \<and> \<not> eq_zero (dict_get [(PStr (ascii ''errcode''), PInt 40013),
                            (PStr (ascii ''errmsg''), PStr (ascii ''invalid corpid''))] ''errcode'')
   \<and> get_access_token bare_client rejected_world =
     (Inl (TokenFailed (PStr (ascii ''invalid corpid''))), bare_client,
      rejected_world\<lparr>wire := [GetToken (ascii ''corp'') (ascii ''secret'')]\<rparr>)
   \<and> send_message decimal bare_client (ascii ''t'') (ascii ''<div>X</div>'') rejected_world =
     (Inl (TokenFailed (PStr (ascii ''invalid corpid''))), bare_client,
      rejected_world\<lparr>wire := [GetToken (ascii ''corp'') (ascii ''secret'')]\<rparr>)
   \<and> server broken_world (GetToken (corpid bare_client) (corpsecret bare_client)) =
       Reply 500 NotJson
   \<and> get_access_token bare_client broken_world =
     (Inl (RequestFailed 500), bare_client,
      broken_world\<lparr>wire := [GetToken (ascii ''corp'') (ascii ''secret'')]\<rparr>)
   \<and> send_message decimal bare_client (ascii ''t'') (ascii ''<div>X</div>'') broken_world =
     (Inl (RequestFailed 500), bare_client,
      broken_world\<lparr>wire := [GetToken (ascii ''corp'') (ascii ''secret'')]\<rparr>)"
  using auth_failure_aborts_send[of bare_client rejected_world 200
          "Json (PDict [(PStr (ascii ''errcode''), PInt 40013),
                        (PStr (ascii ''errmsg''), PStr (ascii ''invalid corpid''))])"
          "[(PStr (ascii ''errcode''), PInt 40013),
            (PStr (ascii ''errmsg''), PStr (ascii ''invalid corpid''))]"
          decimal "ascii ''t''" "ascii ''<div>X</div>''"]
        auth_failure_aborts_send[of bare_client broken_world 500 NotJson "[]"
          decimal "ascii ''t''" "ascii ''<div>X</div>''"]
  by (simp add: bare_client_def rejected_world_def broken_world_def eq_zero_def dict_get_def
        ascii_def)

subsection \<open>The status of the message endpoint\<close>

text \<open>
  C5: once the token is there and the agent id is an integer, a reply of the message
  endpoint with a status other than 200 makes \<^verbatim>\<open>send_message\<close> return \<^verbatim>\<open>None\<close>, print the
  failure line with that status, and raise nothing; a reply with status 200 and a JSON
  body makes it return the parsed body.
\<close>

theorem send_status_decides_result:
  assumes "get_access_token self w = (Inr tok, self1, w1)"
    and "int_of (agentid self) = Some n"
    and "server w (SendMessage tok (message_data n title content) headers) = Reply status body"
  shows "(status \<noteq> 200 \<longrightarrow>
            send_message int_of self title content w =
              (Inr PNone, self1,
               w1\<lparr>wire := wire w1 @ [SendMessage tok (message_data n title content) headers],
                  stdout := stdout w1 @ [MessageFailed status]\<rparr>))
         \<and> (status = 200 \<longrightarrow> body = Json j \<longrightarrow>
            send_message int_of self title content w =
              (Inr j, self1,
               w1\<lparr>wire := wire w1 @ [SendMessage tok (message_data n title content) headers],
                  stdout := stdout w1 @ [MessageSent]\<rparr>))"
  using send_message_after_token[of self w tok self1 w1 int_of n title content status body] assms
  by simp

theorem send_status_decides_result_witness:
  "get_access_token cached_client (cached_world\<lparr>server := broken_server\<rparr>) =
     (Inr (PStr (ascii ''T'')), cached_client, cached_world\<lparr>server := broken_server\<rparr>)
   \<and> decimal (agentid cached_client) = Some 1000002
   \<and> fst (send_message decimal cached_client (ascii ''t'') (ascii ''<div>X</div>'')
            (cached_world\<lparr>server := broken_server\<rparr>)) = Inr PNone
   \<and> stdout (snd (snd (send_message decimal cached_client (ascii ''t'') (ascii ''<div>X</div>'')
            (cached_world\<lparr>server := broken_server\<rparr>)))) = [MessageFailed 500]
   \<and> fst (send_message decimal cached_client (ascii ''t'') (ascii ''<div>X</div>'') cached_world) =
       Inr (PDict [(PStr (ascii ''errcode''), PInt 0), (PStr (ascii ''errmsg''), PStr (ascii ''ok''))])
   \<and> stdout (snd (snd (send_message decimal cached_client (ascii ''t'') (ascii ''<div>X</div>'')
            cached_world))) = [MessageSent]"
  using send_status_decides_result[of cached_client "cached_world\<lparr>server := broken_server\<rparr>"
          "PStr (ascii ''T'')" cached_client "cached_world\<lparr>server := broken_server\<rparr>"
          decimal 1000002 "ascii ''t''" "ascii ''<div>X</div>''" 500 NotJson PNone]
        send_status_decides_result[of cached_client cached_world
          "PStr (ascii ''T'')" cached_client cached_world
          decimal 1000002 "ascii ''t''" "ascii ''<div>X</div>''" 200
          "Json (PDict [(PStr (ascii ''errcode''), PInt 0), (PStr (ascii ''errmsg''), PStr (ascii ''ok''))])"
          "PDict [(PStr (ascii ''errcode''), PInt 0), (PStr (ascii ''errmsg''), PStr (ascii ''ok''))]"]
  by (simp add: get_cached decimal_agent cached_world_def)

subsection \<open>Loading the persisted token\<close>

text \<open>
  C6: when the cache file holds a persisted dictionary, \<^verbatim>\<open>_load_access_token\<close> returns the
  stored token exactly when a token is there (a value that counts as true) and the
  current time is strictly below the stored expiry; it returns \<^verbatim>\<open>None\<close> when no token is
  there, and when the time has reached the expiry.
\<close>

theorem load_returns_unexpired_token:
  assumes "fs w (token_file self) = Stored (Object (PDict d))"
  shows "(\<not> truthy (dict_get d ''access_token'') \<longrightarrow> load_access_token self w = Inr PNone)
         \<and> (truthy (dict_get d ''access_token'') \<longrightarrow>
              num_of (dict_get d ''expire_time'') = Some e \<longrightarrow>
              load_access_token self w =
                Inr (if now w < e then dict_get d ''access_token'' else PNone))"
  using assms by (simp add: load_access_token_def Let_def)

theorem load_returns_unexpired_token_witness:
  "fs cached_world (token_file cached_client) =
     Stored (Object (PDict [(PStr (ascii ''access_token''), PStr (ascii ''T'')),
                            (PStr (ascii ''expire_time''), PFloat 100)]))
   \<and> now cached_world < 100
   \<and> load_access_token cached_client cached_world = Inr (PStr (ascii ''T''))
   \<and> load_access_token cached_client (cached_world\<lparr>now := 100\<rparr>) = Inr PNone"
  using load_returns_unexpired_token[of cached_world cached_client
          "[(PStr (ascii ''access_token''), PStr (ascii ''T'')),
            (PStr (ascii ''expire_time''), PFloat 100)]" 100]
        load_returns_unexpired_token[of "cached_world\<lparr>now := 100\<rparr>" cached_client
          "[(PStr (ascii ''access_token''), PStr (ascii ''T'')),
            (PStr (ascii ''expire_time''), PFloat 100)]" 100]
  by (simp add: cached_world_def cached_files_def dict_get_def ascii_def)

subsection \<open>Saving a token\<close>



subsection \<open>The posted payload\<close>

text \<open>
  C8: for every title and content, once the token is there and the agent id is an
  integer, the request that \<^verbatim>\<open>send_message\<close> adds to the wire is the POST that carries
  \<^verbatim>\<open>touser = "@all"\<close>, \<^verbatim>\<open>msgtype = "mpnews"\<close>, the agent id, and one article with the title,
  the fixed thumbnail, author and source link, the content as given and the digest.
\<close>

theorem send_message_payload_shape:
  assumes "get_access_token self w = (Inr tok, self1, w1)"
    and "int_of (agentid self) = Some n"
  shows "wire (snd (snd (send_message int_of self title content w))) =
           wire w1 @
           [SendMessage tok
              (PDict
                 [(PStr (ascii ''touser''), PStr (ascii ''@all'')),
                  (PStr (ascii ''msgtype''), PStr (ascii ''mpnews'')),
                  (PStr (ascii ''agentid''), PInt n),
                  (PStr (ascii ''mpnews''),
                   PDict
                     [(PStr (ascii ''articles''),
                       PList
                         [PDict
                            [(PStr (ascii ''title''), PStr (replace [10] [] title)),
                             (PStr (ascii ''thumb_media_id''),
                              PStr (ascii ''2olmh7kAnR5KVR0BuHzAiOuWEFkBF8ITqi6AQxTUR3bQiFpnP2UukUn9xNtk-LvIm'')),
                             (PStr (ascii ''author''), PStr [38160, 22823, 31070]),
                             (PStr (ascii ''content_source_url''),
                              PStr (ascii ''https://www.fglt.net/index.php'')),
                             (PStr (ascii ''content''), PStr content),
                             (PStr (ascii ''digest''), PStr (strip (clean_digest content)))]])])])
              headers]"
  using send_message_posts[of self w tok self1 w1 int_of n title content] assms
  by (simp only: message_data_def)

theorem send_message_payload_shape_witness:
  "get_access_token cached_client cached_world =
     (Inr (PStr (ascii ''T'')), cached_client, cached_world)
   \<and> decimal (agentid cached_client) = Some 1000002
   \<and> wire (snd (snd (send_message decimal cached_client (ascii ''t'') (ascii ''<div>X</div>'')
              cached_world))) =
       [SendMessage (PStr (ascii ''T''))
              (PDict
                 [(PStr (ascii ''touser''), PStr (ascii ''@all'')),
                  (PStr (ascii ''msgtype''), PStr (ascii ''mpnews'')),
                  (PStr (ascii ''agentid''), PInt 1000002),
                  (PStr (ascii ''mpnews''),
                   PDict
                     [(PStr (ascii ''articles''),
                       PList
                         [PDict
                            [(PStr (ascii ''title''), PStr (ascii ''t'')),
                             (PStr (ascii ''thumb_media_id''),
                              PStr (ascii ''2olmh7kAnR5KVR0BuHzAiOuWEFkBF8ITqi6AQxTUR3bQiFpnP2UukUn9xNtk-LvIm'')),
                             (PStr (ascii ''author''), PStr [38160, 22823, 31070]),
                             (PStr (ascii ''content_source_url''),
                              PStr (ascii ''https://www.fglt.net/index.php'')),
                             (PStr (ascii ''content''), PStr (ascii ''<div>X</div>'')),
                             (PStr (ascii ''digest''), PStr (ascii ''X''))]])])])
              headers]"
  using send_message_payload_shape[of cached_client cached_world "PStr (ascii ''T'')"
          cached_client cached_world decimal 1000002 "ascii ''t''" "ascii ''<div>X</div>''"]
  by (simp add: get_cached decimal_agent digest_div replace_single cached_world_def)
    (simp add: ascii_def)

subsection \<open>The title\<close>

text \<open>
  C9: the title of the posted article is the given title without its newline
  characters; a title that has none is posted as it is.
\<close>

theorem posted_title_drops_newlines:
  assumes "get_access_token self w = (Inr tok, self1, w1)"
    and "int_of (agentid self) = Some n"
  shows "posted_field (last (wire (snd (snd (send_message int_of self title content w)))))
           ''title'' = PStr (filter (\<lambda>c. c \<noteq> 10) title)
         \<and> (10 \<notin> set title \<longrightarrow>
              posted_field (last (wire (snd (snd (send_message int_of self title content w)))))
                ''title'' = PStr title)"
proof -
  have "posted_field (last (wire (snd (snd (send_message int_of self title content w)))))
          ''title'' = PStr (filter (\<lambda>c. c \<noteq> 10) title)"
    using send_message_posts[of self w tok self1 w1 int_of n title content] assms
    by (simp add: article_title replace_single)
  moreover have "10 \<notin> set title \<Longrightarrow> filter (\<lambda>c. c \<noteq> 10) title = title"
    by (induction title) auto
  ultimately show ?thesis by simp
qed

theorem posted_title_drops_newlines_witness:
  "get_access_token cached_client cached_world =
     (Inr (PStr (ascii ''T'')), cached_client, cached_world)
   \<and> decimal (agentid cached_client) = Some 1000002
   \<and> posted_field (last (wire (snd (snd (send_message decimal cached_client
        (ascii ''a'' @ 10 # ascii ''b'' @ [10]) (ascii ''<div>X</div>'') cached_world)))))
        ''title'' = PStr (ascii ''ab'')
   \<and> 10 \<notin> set (ascii ''ab'')
   \<and> posted_field (last (wire (snd (snd (send_message decimal cached_client
        (ascii ''ab'') (ascii ''<div>X</div>'') cached_world)))))
        ''title'' = PStr (ascii ''ab'')"
  using posted_title_drops_newlines[of cached_client cached_world "PStr (ascii ''T'')"
          cached_client cached_world decimal 1000002 "ascii ''a'' @ 10 # ascii ''b'' @ [10]"
          "ascii ''<div>X</div>''"]
        posted_title_drops_newlines[of cached_client cached_world "PStr (ascii ''T'')"
          cached_client cached_world decimal 1000002 "ascii ''ab''" "ascii ''<div>X</div>''"]
  by (simp add: get_cached decimal_agent ascii_def)

subsection \<open>The credential string\<close>

lemma three_fields: "3 \<le> length xs \<Longrightarrow> \<exists>c s a rest. xs = c # s # a # rest"
  by (auto simp: numeral_3_eq_3 Suc_le_length_iff)

lemma send_message_bad_agentid:
  assumes "int_of (agentid self) = None"
    and "get_access_token self w = (r, self1, w1)"
  shows "send_message int_of self title content w =
           (Inl (case r of Inl e \<Rightarrow> e | Inr t \<Rightarrow> ValueError), self1, w1)"
  using assms get_access_token_keeps[OF assms(2)]
  by (cases r) (simp_all add: send_message_def)

lemma init_few_fields:
  "length (split 35 token_str) < 3 \<Longrightarrow> WeChatPush_init token_str file w = Inl IndexError"
  by (auto simp: WeChatPush_init_def split: list.splits)

lemma init_three_fields:
  assumes "3 \<le> length (split 35 token_str)"
  shows "WeChatPush_init token_str file w =
          (case load_access_token
                  \<lparr>token_list = split 35 token_str, corpid = split 35 token_str ! 0,
                   corpsecret = split 35 token_str ! 1, agentid = split 35 token_str ! 2,
                   token_file = file, access_token = PNone\<rparr> w of
             Inl e \<Rightarrow> Inl e
           | Inr tok \<Rightarrow>
               Inr \<lparr>token_list = split 35 token_str, corpid = split 35 token_str ! 0,
                    corpsecret = split 35 token_str ! 1, agentid = split 35 token_str ! 2,
                    token_file = file, access_token = tok\<rparr>)"
proof -
  obtain c s a rest where "split 35 token_str = c # s # a # rest"
    using three_fields[OF assms] by blast
  then show ?thesis
    by (simp add: WeChatPush_init_def split: sum.splits)
qed

lemma split_demo: "split 35 (ascii ''wwe11a5be7f'') = [ascii ''wwe11a5be7f'']"
  by code_simp

lemma split_three: "split 35 (ascii ''corp#secret#1000002'') = [ascii ''corp'', ascii ''secret'', ascii ''1000002'']"
  by code_simp

lemma decimal_worded: "decimal (agentid worded_client) = None"
  by (simp add: worded_client_def decimal_def ascii_def)

lemma get_worded: "get_access_token worded_client w = (Inr (PStr (ascii ''T'')), worded_client, w)"
  by (simp add: get_access_token_def worded_client_def ascii_def)

text \<open>
  C10: the constructor needs at least three fields between the \<^verbatim>\<open>#\<close> signs of the
  credential string. With fewer it fails with \<^verbatim>\<open>IndexError\<close>; with three or more the first,
  second and third field become \<^verbatim>\<open>corpid\<close>, \<^verbatim>\<open>corpsecret\<close> and \<^verbatim>\<open>agentid\<close>, and the
  construction goes on to load the cache file. When the third field is no integer,
  \<^verbatim>\<open>send_message\<close> raises (\<^verbatim>\<open>ValueError\<close>, unless fetching the token has raised before) and
  leaves the world as fetching the token left it: no message is posted.
\<close>

theorem init_needs_three_fields:
  "(length (split 35 token_str) < 3 \<longrightarrow> WeChatPush_init token_str file w = Inl IndexError)
   \<and> (3 \<le> length (split 35 token_str) \<longrightarrow>
        WeChatPush_init token_str file w =
          (case load_access_token
                  \<lparr>token_list = split 35 token_str, corpid = split 35 token_str ! 0,
                   corpsecret = split 35 token_str ! 1, agentid = split 35 token_str ! 2,
                   token_file = file, access_token = PNone\<rparr> w of
             Inl e \<Rightarrow> Inl e
           | Inr tok \<Rightarrow>
               Inr \<lparr>token_list = split 35 token_str, corpid = split 35 token_str ! 0,
                    corpsecret = split 35 token_str ! 1, agentid = split 35 token_str ! 2,
                    token_file = file, access_token = tok\<rparr>))
   \<and> (int_of (agentid self) = None \<longrightarrow> get_access_token self w = (r, self1, w1) \<longrightarrow>
        send_message int_of self title content w =
          (Inl (case r of Inl e \<Rightarrow> e | Inr t \<Rightarrow> ValueError), self1, w1))"
  using init_few_fields[of token_str "file" w] init_three_fields[of token_str "file" w]
    send_message_bad_agentid[of int_of self w r self1 w1 title content]
  by blast

theorem init_needs_three_fields_witness:
  "length (split 35 (ascii ''wwe11a5be7f'')) < 3
   \<and> WeChatPush_init (ascii ''wwe11a5be7f'') cache_path fresh_world = Inl IndexError
   \<and> 3 \<le> length (split 35 (ascii ''corp#secret#1000002''))
   \<and> WeChatPush_init (ascii ''corp#secret#1000002'') cache_path fresh_world = Inr bare_client
   \<and> decimal (agentid worded_client) = None
   \<and> get_access_token worded_client fresh_world =
       (Inr (PStr (ascii ''T'')), worded_client, fresh_world)
   \<and> send_message decimal worded_client (ascii ''t'') (ascii ''<div>X</div>'') fresh_world =
       (Inl ValueError, worded_client, fresh_world)"
  using init_needs_three_fields[of "ascii ''wwe11a5be7f''" cache_path fresh_world decimal
          worded_client "Inr (PStr (ascii ''T''))" worded_client fresh_world "ascii ''t''"
          "ascii ''<div>X</div>''"]
        init_needs_three_fields[of "ascii ''corp#secret#1000002''" cache_path fresh_world decimal
          worded_client "Inr (PStr (ascii ''T''))" worded_client fresh_world "ascii ''t''"
          "ascii ''<div>X</div>''"]
  by (simp add: split_demo split_three decimal_worded get_worded load_access_token_def
        fresh_world_def no_files_def bare_client_def)

end
